theory Spec2Isabelle
  imports Main "HOL-Library.Word"
begin

section \<open>Durations\<close>

text \<open>
  Go's \<open>time.Duration\<close> is a signed 64-bit count of nanoseconds. The unit constants are
  those of the standard \<open>time\<close> package; \<open>sint\<close> reads a duration as its signed value.
\<close>

type_synonym duration = "64 word"

definition Nanosecond :: duration where
  "Nanosecond = 1"

definition Microsecond :: duration where
  "Microsecond = 1000 * Nanosecond"

definition Millisecond :: duration where
  "Millisecond = 1000 * Microsecond"

definition Second :: duration where
  "Second = 1000 * Millisecond"

definition Minute :: duration where
  "Minute = 60 * Second"

definition Hour :: duration where
  "Hour = 60 * Minute"

section \<open>Node agent configuration (package na)\<close>

definition defaultCSRInitialRetrialInterval :: duration where
  "defaultCSRInitialRetrialInterval = Second * 5"

definition defaultCSRMaxRetries :: int where
  "defaultCSRMaxRetries = 5"

definition defaultCSRGracePeriodPercentage :: int where
  "defaultCSRGracePeriodPercentage = 50"

text \<open>
  The \<open>Config\<close> struct. Its last two fields, \<open>PlatformConfig\<close> and \<open>LoggingOptions\<close>,
  hold values of types of other packages (\<open>platform.ClientConfig\<close>, \<open>log.Options\<close>) and are
  left out; the fields that \<open>NewConfig\<close> does not set have Go's zero value.
\<close>

record Config =
  IstioCAAddress :: string
  ServiceIdentityOrg :: string
  WorkloadCertTTL :: duration
  RSAKeySize :: int
  Env :: string
  CSRInitialRetrialInterval :: duration
  CSRMaxRetries :: int
  CSRGracePeriodPercentage :: int

definition NewConfig :: Config where
  "NewConfig =
     \<lparr> IstioCAAddress = [],
       ServiceIdentityOrg = [],
       WorkloadCertTTL = 0,
       RSAKeySize = 0,
       Env = [],
       CSRInitialRetrialInterval = defaultCSRInitialRetrialInterval,
       CSRMaxRetries = defaultCSRMaxRetries,
       CSRGracePeriodPercentage = defaultCSRGracePeriodPercentage \<rparr>"

section \<open>The CA binary (package main)\<close>

subsection \<open>Constants and command-line options\<close>

definition defaultCACertTTL :: duration where
  "defaultCACertTTL = 365 * 24 * Hour"

definition defaultWorkloadCertTTL :: duration where
  "defaultWorkloadCertTTL = Hour"

text \<open>
  The constant \<open>maxWorkloadCertTTL\<close> of the source; the suffix keeps it apart from the
  option field of the same name.
\<close>

definition maxWorkloadCertTTL_const :: duration where
  "maxWorkloadCertTTL_const = 7 * 24 * Hour"

definition selfSignedCAOrgDefault :: string where
  "selfSignedCAOrgDefault = ''k8s.cluster.local''"

definition namespaceKey :: string where
  "namespaceKey = ''NAMESPACE''"

text \<open>The \<open>cliOptions\<close> struct, without its \<open>loggingOptions\<close> pointer.\<close>

record cliOptions =
  certChainFile :: string
  signingCertFile :: string
  signingKeyFile :: string
  rootCertFile :: string
  namespace :: string
  istioCaStorageNamespace :: string
  kubeConfigFile :: string
  selfSignedCA :: bool
  selfSignedCAOrg :: string
  caCertTTL :: duration
  workloadCertTTL :: duration
  maxWorkloadCertTTL :: duration
  grpcHostname :: string
  grpcPort :: int

text \<open>
  The value of \<open>opts\<close> when no flag is given on the command line: each field holds the
  default that \<open>init\<close> registers for its flag.
\<close>

definition flagDefaults :: cliOptions where
  "flagDefaults =
     \<lparr> certChainFile = [],
       signingCertFile = [],
       signingKeyFile = [],
       rootCertFile = [],
       namespace = [],
       istioCaStorageNamespace = ''istio-system'',
       kubeConfigFile = [],
       selfSignedCA = False,
       selfSignedCAOrg = ''k8s.cluster.local'',
       caCertTTL = defaultCACertTTL,
       workloadCertTTL = defaultWorkloadCertTTL,
       maxWorkloadCertTTL = maxWorkloadCertTTL_const,
       grpcHostname = ''localhost'',
       grpcPort = 0 \<rparr>"

subsection \<open>The outside world\<close>

text \<open>
  Values handed back by the packages the binary calls are opaque handles. A CA value
  (of interface type \<open>ca.CertificateAuthority\<close>) that may be \<open>nil\<close> is an option.
\<close>

type_synonym bytes = "8 word list"

datatype restConfig = RestConfig nat

datatype clientset = Clientset nat

datatype istioCA = IstioCA nat

record IstioCAOptions =
  CertChainBytes :: bytes
  CertTTL :: duration
  MaxCertTTL :: duration
  SigningCertBytes :: bytes
  SigningKeyBytes :: bytes
  RootCertBytes :: bytes

text \<open>
  What each external call answers. \<open>None\<close> stands for a non-nil error. \<open>NewIstioCA\<close>
  returns a pair in Go, the CA (possibly nil) and the error; the model keeps both,
  the second component telling whether the error is non-nil.
\<close>

record world =
  logConfigure :: bool
  lookupEnv :: "string \<Rightarrow> string option"
  ioutilReadFile :: "string \<Rightarrow> bytes option"
  buildConfigFromFlags :: "string \<Rightarrow> restConfig option"
  inClusterConfig :: "restConfig option"
  newForConfig :: "restConfig \<Rightarrow> clientset option"
  newSelfSignedIstioCA ::
    "duration \<Rightarrow> duration \<Rightarrow> duration \<Rightarrow> string \<Rightarrow> string \<Rightarrow> clientset
       \<Rightarrow> istioCA option"
  newIstioCA :: "IstioCAOptions \<Rightarrow> istioCA option \<times> bool"
  grpcServerRun :: bool

text \<open>The messages of the binary, one constructor for each call site.\<close>

datatype message =
    FailedConfigureLogging
  | FailedCreateClientset
  | UseSelfSignedCertificate
  | FailedCreateSelfSignedCA
  | FailedCreateIstioCA
  | FailedConfigFromFile string
  | FailedInClusterConfig
  | FailedReadFile string
  | NoSigningCert
  | NoSigningKey
  | NoRootCert
  | FailedStartGRPC
  | IstioCAHasStarted

text \<open>What a run does, in order: log lines and calls into other packages.\<close>

datatype event =
    LogErrorf message
  | LogWarnf message
  | LogInfo message
  | ReadFile string
  | BuildConfigFromFlags string
  | InClusterConfig
  | NewForConfig restConfig
  | NewSelfSignedIstioCA duration duration duration string string clientset
  | NewIstioCA IstioCAOptions
  | NewSecretController "istioCA option" duration clientset string
  | SecretControllerRun
  | GetIdentityRegistry
  | NewServiceController clientset string
  | ServiceControllerRun
  | NewServiceAccountController clientset string
  | ServiceAccountControllerRun
  | GrpcNew "istioCA option" duration string int
  | GrpcServerRun
  | StopRegistryControllers

text \<open>
  A function of the binary either returns a value or ends the process through
  \<open>os.Exit\<close>; both carry the events so far.
\<close>

datatype 'a result = Exited int "event list" | Returned 'a "event list"

definition andThen :: "'a result \<Rightarrow> ('a \<Rightarrow> event list \<Rightarrow> 'b result) \<Rightarrow> 'b result" where
  "andThen r f = (case r of Exited c tr \<Rightarrow> Exited c tr | Returned a tr \<Rightarrow> f a tr)"

subsection \<open>The functions of the binary\<close>

definition fatalf :: "message \<Rightarrow> event list \<Rightarrow> 'a result" where
  "fatalf m tr = Exited (- 1) (tr @ [LogErrorf m])"

definition readFile :: "world \<Rightarrow> string \<Rightarrow> event list \<Rightarrow> bytes result" where
  "readFile w filename tr =
     (case ioutilReadFile w filename of
        None \<Rightarrow> fatalf (FailedReadFile filename) (tr @ [ReadFile filename])
      | Some bs \<Rightarrow> Returned bs (tr @ [ReadFile filename]))"

definition verifyCommandLineOptions :: "cliOptions \<Rightarrow> event list \<Rightarrow> unit result" where
  "verifyCommandLineOptions opts tr =
     (if selfSignedCA opts then Returned () tr
      else if signingCertFile opts = [] then fatalf NoSigningCert tr
      else if signingKeyFile opts = [] then fatalf NoSigningKey tr
      else if rootCertFile opts = [] then fatalf NoRootCert tr
      else Returned () tr)"

definition generateConfig :: "world \<Rightarrow> cliOptions \<Rightarrow> event list \<Rightarrow> restConfig result" where
  "generateConfig w opts tr =
     (if kubeConfigFile opts \<noteq> [] then
        (case buildConfigFromFlags w (kubeConfigFile opts) of
           None \<Rightarrow> fatalf (FailedConfigFromFile (kubeConfigFile opts))
                     (tr @ [BuildConfigFromFlags (kubeConfigFile opts)])
         | Some c \<Rightarrow> Returned c (tr @ [BuildConfigFromFlags (kubeConfigFile opts)]))
      else
        (case inClusterConfig w of
           None \<Rightarrow> fatalf FailedInClusterConfig (tr @ [InClusterConfig])
         | Some c \<Rightarrow> Returned c (tr @ [InClusterConfig])))"

definition createClientset :: "world \<Rightarrow> cliOptions \<Rightarrow> event list \<Rightarrow> clientset result" where
  "createClientset w opts tr =
     andThen (generateConfig w opts tr)
       (\<lambda>c tr. case newForConfig w c of
                 None \<Rightarrow> fatalf FailedCreateClientset (tr @ [NewForConfig c])
               | Some cs \<Rightarrow> Returned cs (tr @ [NewForConfig c]))"

definition createCA ::
  "world \<Rightarrow> cliOptions \<Rightarrow> clientset \<Rightarrow> event list \<Rightarrow> istioCA option result"
where
  "createCA w opts core tr =
     (if selfSignedCA opts then
        (let tr1 = tr @ [LogInfo UseSelfSignedCertificate,
                         NewSelfSignedIstioCA (caCertTTL opts) (workloadCertTTL opts)
                           (maxWorkloadCertTTL opts) (selfSignedCAOrg opts)
                           (istioCaStorageNamespace opts) core]
         in case newSelfSignedIstioCA w (caCertTTL opts) (workloadCertTTL opts)
                   (maxWorkloadCertTTL opts) (selfSignedCAOrg opts)
                   (istioCaStorageNamespace opts) core of
              None \<Rightarrow> fatalf FailedCreateSelfSignedCA tr1
            | Some istioCA \<Rightarrow> Returned (Some istioCA) tr1)
      else
        andThen (if certChainFile opts \<noteq> [] then readFile w (certChainFile opts) tr
                 else Returned [] tr)
          (\<lambda>certChainBytes tr.
             andThen (readFile w (signingCertFile opts) tr)
               (\<lambda>signingCertBytes tr.
                  andThen (readFile w (signingKeyFile opts) tr)
                    (\<lambda>signingKeyBytes tr.
                       andThen (readFile w (rootCertFile opts) tr)
                         (\<lambda>rootCertBytes tr.
                            let caOpts = \<lparr> CertChainBytes = certChainBytes,
                                           CertTTL = workloadCertTTL opts,
                                           MaxCertTTL = maxWorkloadCertTTL opts,
                                           SigningCertBytes = signingCertBytes,
                                           SigningKeyBytes = signingKeyBytes,
                                           RootCertBytes = rootCertBytes \<rparr>;
                                istioCA = fst (newIstioCA w caOpts);
                                err = snd (newIstioCA w caOpts)
                            in Returned istioCA
                                 (tr @ [NewIstioCA caOpts]
                                     @ (if err then [LogErrorf FailedCreateIstioCA] else [])))))))"

text \<open>
  \<open>runCA\<close> never returns: it ends in \<open>os.Exit\<close> or in \<open>select {}\<close>, which waits for ever
  with the components it started left running. Its body is written in three parts:
  \<open>applyNamespaceEnv\<close> is the \<open>os.LookupEnv\<close> block that updates \<open>opts\<close>,
  \<open>startServers\<close> is everything from \<open>NewSecretController\<close> to the last log line,
  and \<open>runCA\<close> puts them in the order of the source.
\<close>

datatype outcome = ProcessExit int "event list" | WaitForever "event list"

definition applyNamespaceEnv :: "world \<Rightarrow> cliOptions \<Rightarrow> cliOptions" where
  "applyNamespaceEnv w opts =
     (case lookupEnv w namespaceKey of
        Some v \<Rightarrow>
          (if namespace opts = [] then opts\<lparr>namespace := v\<rparr> else opts)
            \<lparr>istioCaStorageNamespace := v\<rparr>
      | None \<Rightarrow> opts)"

definition startServers ::
  "world \<Rightarrow> cliOptions \<Rightarrow> clientset \<Rightarrow> istioCA option \<Rightarrow> event list \<Rightarrow> unit result"
where
  "startServers w opts cs ca tr =
     (let tr1 = tr @ [NewSecretController ca (workloadCertTTL opts) cs (namespace opts),
                      SecretControllerRun];
          tr2 = (if grpcPort opts > 0 then
                   tr1 @ [GetIdentityRegistry,
                          NewServiceController cs (namespace opts), ServiceControllerRun,
                          NewServiceAccountController cs (namespace opts),
                          ServiceAccountControllerRun,
                          GrpcNew ca (maxWorkloadCertTTL opts) (grpcHostname opts)
                            (grpcPort opts),
                          GrpcServerRun]
                       @ (if grpcServerRun w then []
                          else [StopRegistryControllers, LogWarnf FailedStartGRPC])
                 else tr1)
      in Returned () (tr2 @ [LogInfo IstioCAHasStarted]))"

definition runCA :: "world \<Rightarrow> cliOptions \<Rightarrow> outcome" where
  "runCA w opts0 =
     (case
        andThen (if logConfigure w then Returned () []
                 else fatalf FailedConfigureLogging [])
          (\<lambda>_ tr.
             let opts = applyNamespaceEnv w opts0
             in andThen (verifyCommandLineOptions opts tr)
                  (\<lambda>_ tr.
                     andThen (createClientset w opts tr)
                       (\<lambda>cs tr.
                          andThen (createCA w opts cs tr)
                            (\<lambda>ca tr. startServers w opts cs ca tr))))
      of Exited c tr \<Rightarrow> ProcessExit c tr
       | Returned _ tr \<Rightarrow> WaitForever tr)"

subsection \<open>Reading a run\<close>

fun traceOf :: "'a result \<Rightarrow> event list" where
  "traceOf (Exited c tr) = tr"
| "traceOf (Returned a tr) = tr"

fun eventsOf :: "outcome \<Rightarrow> event list" where
  "eventsOf (ProcessExit c tr) = tr"
| "eventsOf (WaitForever tr) = tr"

text \<open>The events in which the binary touches externally supplied signing material.\<close>

fun readsSigningMaterial :: "event \<Rightarrow> bool" where
  "readsSigningMaterial (ReadFile f) = True"
| "readsSigningMaterial (NewIstioCA caOpts) = True"
| "readsSigningMaterial e = False"




text \<open>A step leaves the reading \<open>g\<close> of the trace as it found it.\<close>

definition keeps :: "(event list \<Rightarrow> 'b) \<Rightarrow> event list \<Rightarrow> 'a result \<Rightarrow> bool" where
  "keeps g tr r = (g (traceOf r) = g tr)"

subsection \<open>Sample runs\<close>

text \<open>
  A cluster in which every call succeeds, except that \<open>NewIstioCA\<close> rejects the signing
  material it is given (it returns a nil CA and an error).
\<close>

definition rejectingWorld :: world where
  "rejectingWorld =
     \<lparr> logConfigure = True,
       lookupEnv = (\<lambda>k. None),
       ioutilReadFile = (\<lambda>f. Some []),
       buildConfigFromFlags = (\<lambda>f. None),
       inClusterConfig = Some (RestConfig 0),
       newForConfig = (\<lambda>c. Some (Clientset 0)),
       newSelfSignedIstioCA = (\<lambda>caTTL certTTL maxTTL org ns core. Some (IstioCA 0)),
       newIstioCA = (\<lambda>caOpts. (None, True)),
       grpcServerRun = True \<rparr>"

definition fileOptions :: cliOptions where
  "fileOptions =
     flagDefaults \<lparr> signingCertFile := ''ca.crt'', signingKeyFile := ''ca.key'',
                    rootCertFile := ''root.crt'' \<rparr>"

definition selfSignedOptions :: cliOptions where
  "selfSignedOptions = flagDefaults \<lparr> selfSignedCA := True, grpcPort := 8060 \<rparr>"

section \<open>The certificate authority\<close>

text \<open>
  The binary above only calls the constructors of the signing core
  (\<open>security/pkg/pki/ca\<close>); the core itself is described here as the specification
  describes it (sections 3, 4.1, 7 and 8). Instants and durations are integers
  (nanoseconds, as \<open>sint\<close> of a \<open>duration\<close>); keys are opaque numbers, and a certificate
  records who signed it instead of carrying a signature.
\<close>

text \<open>
  Modelled from the spec: the certificate type of the missing \<open>pki\<close> packages; the fields
  are the ones that section 3 and section 4 name.
\<close>

record Certificate =
  subject :: string
  issuer :: string
  publicKey :: nat
  NotBefore :: int
  NotAfter :: int
  IsCA :: bool

text \<open>
  Modelled from the spec: the missing \<open>KeyCertBundle\<close> (section 3): private key, leaf
  certificate (the signing certificate), intermediates up to the root, and the root.
\<close>

record KeyCertBundle =
  privateKey :: nat
  leafCert :: Certificate
  intermediates :: "Certificate list"
  rootCert :: Certificate

text \<open>
  Modelled from the spec: the missing \<open>CertificateRequest\<close> (section 3). The requested TTL
  is the separate argument of \<open>Sign\<close>, as in the contract of section 4.1; \<open>caKeyUsage\<close>
  says that the CSR asks for CA-capable key usage.
\<close>

record CertificateRequest =
  identity :: string
  csrPublicKey :: nat
  caKeyUsage :: bool

text \<open>Modelled from the spec: the missing \<open>IssuedCertificate\<close> (section 3).\<close>

record IssuedCertificate =
  leaf :: Certificate
  chain :: "Certificate list"
  root :: Certificate

text \<open>Modelled from the spec: the failure modes of the missing \<open>Sign\<close> (section 4.1).\<close>

datatype signError =
    ErrInvalidCSR
  | ErrTTLExceedsPolicy
  | ErrSigningUnavailable
  | ErrSignerExpired

text \<open>
  Modelled from the spec: the treatment of a requested TTL above the policy ceiling by the
  missing \<open>Sign\<close>. The specification describes two: the request is rejected with
  \<open>ErrTTLExceedsPolicy\<close> (sections 4.1 and 7), or the certificate is issued with the
  ceiling as its TTL (sections 4.1 and 8). A CA has one of them.
\<close>

datatype ceilingPolicy = RejectOverCeiling | ClampToCeiling

text \<open>
  Modelled from the spec: the treatment, by the missing \<open>Sign\<close>, of a TTL that would carry
  the leaf past the signing certificate's own \<open>NotAfter\<close>. The specification describes
  two and asks for one of them to be picked (section 8): the TTL is capped by the signer's
  remaining validity (sections 4.1 and 9), or the request is refused with
  \<open>ErrSignerExpired\<close> (section 7). A CA has one of them.
\<close>

datatype signerPolicy = RefuseOutliving | CapToSigner

text \<open>
  Modelled from the spec: the missing \<open>CertificateAuthority\<close> (section 2 and 4.1). It owns
  the active bundle (\<open>None\<close> while no bundle is loaded or a rotation is in progress), the
  workload and CA certificate TTL ceilings, its two policies, and the naming scheme of its
  trust domain.
\<close>

record CertificateAuthority =
  activeBundle :: "KeyCertBundle option"
  policyMaxWorkloadCertTTL :: int
  policyCACertTTL :: int
  overCeiling :: ceilingPolicy
  signerPolicy :: signerPolicy
  wellFormedIdentity :: "string \<Rightarrow> bool"

text \<open>
  Modelled from the spec: the ceiling that the missing \<open>Sign\<close> applies (section 4.1): the CA
  certificate policy when \<open>forCA\<close> is true, the workload policy otherwise.
\<close>

definition policyTTL :: "CertificateAuthority \<Rightarrow> bool \<Rightarrow> int" where
  "policyTTL ca forCA = (if forCA then policyCACertTTL ca else policyMaxWorkloadCertTTL ca)"

text \<open>
  Modelled from the spec: the missing \<open>CertificateAuthority.Sign\<close> (section 4.1), at the
  instant \<open>now\<close>. Without a bundle it is unavailable; a malformed identity, or CA key usage
  asked for outside the CA path, is an invalid CSR; a signing certificate that has expired
  is \<open>ErrSignerExpired\<close> (section 7). The TTL is \<open>min requestedTTL policyTTL\<close>, and where that
  would pass the signer's \<open>NotAfter\<close> the CA's policy decides: the TTL is capped by the
  signer's remaining validity, or the request is refused. \<open>NotBefore\<close> is \<open>now\<close> and
  \<open>NotAfter\<close> is \<open>now\<close> plus the TTL; the leaf comes with the bundle's intermediates and root.
\<close>

definition Sign ::
  "CertificateAuthority \<Rightarrow> int \<Rightarrow> CertificateRequest \<Rightarrow> int \<Rightarrow> bool
     \<Rightarrow> signError + IssuedCertificate"
where
  "Sign ca now csr requestedTTL forCA =
     (case activeBundle ca of
        None \<Rightarrow> Inl ErrSigningUnavailable
      | Some b \<Rightarrow>
          if \<not> wellFormedIdentity ca (identity csr) \<or> (caKeyUsage csr \<and> \<not> forCA)
          then Inl ErrInvalidCSR
          else if overCeiling ca = RejectOverCeiling \<and> policyTTL ca forCA < requestedTTL
          then Inl ErrTTLExceedsPolicy
          else if NotAfter (leafCert b) \<le> now
                  \<or> (signerPolicy ca = RefuseOutliving
                      \<and> NotAfter (leafCert b) < now + min requestedTTL (policyTTL ca forCA))
          then Inl ErrSignerExpired
          else Inr \<lparr> leaf = \<lparr> subject = identity csr,
                                issuer = subject (leafCert b),
                                publicKey = csrPublicKey csr,
                                NotBefore = now,
                                NotAfter = now + min (min requestedTTL (policyTTL ca forCA))
                                                   (NotAfter (leafCert b) - now),
                                IsCA = forCA \<rparr>,
                      chain = intermediates b,
                      root = rootCert b \<rparr>)"

section \<open>Bootstrap of the self-signed CA\<close>

text \<open>
  Modelled from the spec: the failure of the missing \<open>Bootstrap\<close> when the secret store
  refuses the \<open>Put\<close> (section 6).
\<close>

datatype bootstrapError = ErrStorageUnavailable

text \<open>
  Modelled from the spec: what the missing \<open>Bootstrap\<close> takes from its surroundings: the
  current time, the key pair it would generate, whether the store's \<open>Put\<close> succeeds, the
  remaining validity below which a root counts as near expiry, and the key under which the
  root is stored.
\<close>

record bootstrapEnv =
  currentTime :: int
  generatedKey :: nat
  putSucceeds :: bool
  rotationThreshold :: int
  storageKey :: string

text \<open>
  Modelled from the spec: the test of the missing \<open>Bootstrap\<close> for a stored root that is
  valid and not near expiry (section 4.2).
\<close>

definition rootReusable :: "bootstrapEnv \<Rightarrow> KeyCertBundle \<Rightarrow> bool" where
  "rootReusable env b =
     (currentTime env < NotAfter (rootCert b)
      \<and> rotationThreshold env \<le> NotAfter (rootCert b) - currentTime env)"

text \<open>
  Modelled from the spec: the self-signed root that the missing \<open>Bootstrap\<close> builds
  (section 4.2): subject and issuer are the organization, \<open>IsCA\<close> is true, and it is valid
  from now for \<open>caTTL\<close>.
\<close>

definition selfSignedBundle :: "bootstrapEnv \<Rightarrow> int \<Rightarrow> string \<Rightarrow> KeyCertBundle" where
  "selfSignedBundle env caTTL organization =
     (let c = \<lparr> subject = organization, issuer = organization,
                 publicKey = generatedKey env,
                 NotBefore = currentTime env, NotAfter = currentTime env + caTTL,
                 IsCA = True \<rparr>
      in \<lparr> privateKey = generatedKey env, leafCert = c, intermediates = [], rootCert = c \<rparr>)"

text \<open>
  Modelled from the spec: the missing \<open>SelfSignedCAInitializer.Bootstrap\<close> (section 4.2),
  on a secret store that maps keys to bundles. It returns the bundle or an error, and the
  store as it leaves it: a stored root that is reusable is returned as it is; otherwise a
  new root is generated and persisted.
\<close>

definition Bootstrap ::
  "bootstrapEnv \<Rightarrow> (string \<rightharpoonup> KeyCertBundle) \<Rightarrow> int \<Rightarrow> int \<Rightarrow> int \<Rightarrow> string
     \<Rightarrow> (bootstrapError + KeyCertBundle) \<times> (string \<rightharpoonup> KeyCertBundle)"
where
  "Bootstrap env store caTTL workloadTTL maxWorkloadTTL organization =
     (let fresh = selfSignedBundle env caTTL organization;
          regenerate = (if putSucceeds env
                        then (Inr fresh, store(storageKey env \<mapsto> fresh))
                        else (Inl ErrStorageUnavailable, store))
      in case store (storageKey env) of
           None \<Rightarrow> regenerate
         | Some b \<Rightarrow> if rootReusable env b then (Inr b, store) else regenerate)"

section \<open>The node agent's renewal state machine\<close>

text \<open>
  \<open>Config\<close> and \<open>NewConfig\<close> above are the node agent's configuration. Its request and
  renewal loop is described here as sections 3 and 4.4 of the specification describe it,
  with its parameters read from \<open>Config\<close>.
\<close>













section \<open>Sample values\<close>

text \<open>
  Concrete values on which the theorems below are instantiated. Instants and durations
  are in nanoseconds: 3600000000000 is one hour, 600000000000 ten minutes,
  31536000000000000 is 365 days.
\<close>

definition spiffeIdentity :: "string \<Rightarrow> bool" where
  "spiffeIdentity s = (take 9 s = ''spiffe://'')"

definition sampleRoot :: Certificate where
  "sampleRoot =
     \<lparr> subject = ''k8s.cluster.local'', issuer = ''k8s.cluster.local'', publicKey = 1,
       NotBefore = 0, NotAfter = 31536000000000000, IsCA = True \<rparr>"

definition sampleBundle :: KeyCertBundle where
  "sampleBundle =
     \<lparr> privateKey = 1, leafCert = sampleRoot, intermediates = [], rootCert = sampleRoot \<rparr>"

definition sampleCA :: CertificateAuthority where
  "sampleCA =
     \<lparr> activeBundle = Some sampleBundle,
       policyMaxWorkloadCertTTL = 3600000000000,
       policyCACertTTL = 31536000000000000,
       overCeiling = ClampToCeiling,
       signerPolicy = RefuseOutliving,
       wellFormedIdentity = spiffeIdentity \<rparr>"

definition sampleCSR :: CertificateRequest where
  "sampleCSR =
     \<lparr> identity = ''spiffe://cluster.local/ns/default/sa/default'',
       csrPublicKey = 7, caKeyUsage = False \<rparr>"

definition sampleIssued :: IssuedCertificate where
  "sampleIssued =
     \<lparr> leaf = \<lparr> subject = ''spiffe://cluster.local/ns/default/sa/default'',
                 issuer = ''k8s.cluster.local'', publicKey = 7,
                 NotBefore = 0, NotAfter = 3600000000000, IsCA = False \<rparr>,
       chain = [],
       root = sampleRoot \<rparr>"

text \<open>A CA whose signing certificate has ten minutes left at instant 0.\<close>

definition expiringBundle :: KeyCertBundle where
  "expiringBundle =
     \<lparr> privateKey = 1,
       leafCert = sampleRoot \<lparr> NotBefore := - 31535400000000000, NotAfter := 600000000000 \<rparr>,
       intermediates = [],
       rootCert = sampleRoot \<lparr> NotBefore := - 31535400000000000, NotAfter := 600000000000 \<rparr> \<rparr>"

definition expiringCA :: CertificateAuthority where
  "expiringCA = sampleCA \<lparr> activeBundle := Some expiringBundle \<rparr>"

text \<open>
  The same CA with the capping policy, and what it issues at instant 0 for a workload
  request of thirty minutes: a certificate of ten minutes.
\<close>

definition cappingCA :: CertificateAuthority where
  "cappingCA = expiringCA \<lparr> signerPolicy := CapToSigner \<rparr>"

definition cappedIssued :: IssuedCertificate where
  "cappedIssued =
     \<lparr> leaf = \<lparr> subject = ''spiffe://cluster.local/ns/default/sa/default'',
                 issuer = ''k8s.cluster.local'', publicKey = 7,
                 NotBefore = 0, NotAfter = 600000000000, IsCA = False \<rparr>,
       chain = [],
       root = sampleRoot \<lparr> NotBefore := - 31535400000000000, NotAfter := 600000000000 \<rparr> \<rparr>"

text \<open>What the sample CA issues at instant 0 for a CA request (\<open>forCA\<close>) of two hours.\<close>

definition caIssued :: IssuedCertificate where
  "caIssued =
     \<lparr> leaf = \<lparr> subject = ''spiffe://cluster.local/ns/default/sa/default'',
                 issuer = ''k8s.cluster.local'', publicKey = 7,
                 NotBefore = 0, NotAfter = 7200000000000, IsCA = True \<rparr>,
       chain = [],
       root = sampleRoot \<rparr>"

text \<open>A secret store that holds the sample root, and two calls a day apart.\<close>

definition sampleStore :: "string \<rightharpoonup> KeyCertBundle" where
  "sampleStore = [''istio-ca-secret'' \<mapsto> sampleBundle]"

definition firstCall :: bootstrapEnv where
  "firstCall =
     \<lparr> currentTime = 0, generatedKey = 11, putSucceeds = True,
       rotationThreshold = 2592000000000000, storageKey = ''istio-ca-secret'' \<rparr>"

definition secondCall :: bootstrapEnv where
  "secondCall = firstCall \<lparr> currentTime := 86400000000000, generatedKey := 12 \<rparr>"









section \<open>Properties of the CA binary and of the defaults\<close>

subsection \<open>Auxiliary facts\<close>

lemma andThen_Exited [simp]: "andThen (Exited c tr) f = Exited c tr"
  by (simp add: andThen_def)

lemma andThen_Returned [simp]: "andThen (Returned a tr) f = f a tr"
  by (simp add: andThen_def)

lemma eventsOf_case:
  "eventsOf (case r of Exited c tr \<Rightarrow> ProcessExit c tr | Returned u tr \<Rightarrow> WaitForever tr)
     = traceOf r"
  by (cases r) simp_all




lemma keeps_andThen:
  assumes "keeps g tr r" and "\<And>a tr'. keeps g tr' (f a tr')"
  shows "keeps g tr (andThen r f)"
  using assms by (cases r) (simp_all add: keeps_def)









lemma applyNamespaceEnv_signing:
  "applyNamespaceEnv w (opts\<lparr>signingCertFile := a, signingKeyFile := b, rootCertFile := c\<rparr>)
     = (applyNamespaceEnv w opts)\<lparr>signingCertFile := a, signingKeyFile := b, rootCertFile := c\<rparr>"
  "selfSignedCA (applyNamespaceEnv w opts) = selfSignedCA opts"
  by (simp_all add: applyNamespaceEnv_def split: option.split)

lemma verify_selfSigned:
  "selfSignedCA opts \<Longrightarrow> verifyCommandLineOptions opts tr = Returned () tr"
  by (simp add: verifyCommandLineOptions_def)

lemma generateConfig_signing:
  "generateConfig w (opts\<lparr>signingCertFile := a, signingKeyFile := b, rootCertFile := c\<rparr>) tr
     = generateConfig w opts tr"
  by (simp add: generateConfig_def cong: option.case_cong)

lemma createClientset_signing:
  "createClientset w (opts\<lparr>signingCertFile := a, signingKeyFile := b, rootCertFile := c\<rparr>) tr
     = createClientset w opts tr"
  by (simp add: createClientset_def generateConfig_signing)

lemma createCA_selfSigned_signing:
  "selfSignedCA opts \<Longrightarrow>
   createCA w (opts\<lparr>signingCertFile := a, signingKeyFile := b, rootCertFile := c\<rparr>) cs tr
     = createCA w opts cs tr"
  by (simp add: createCA_def)

lemma startServers_signing:
  "startServers w (opts\<lparr>signingCertFile := a, signingKeyFile := b, rootCertFile := c\<rparr>)
     = startServers w opts"
  by (intro ext) (simp add: startServers_def Let_def cong: if_cong)

lemma runCA_selfSigned_signing:
  assumes "selfSignedCA opts"
  shows "runCA w (opts\<lparr>signingCertFile := a, signingKeyFile := b, rootCertFile := c\<rparr>)
           = runCA w opts"
  using assms
  by (simp add: runCA_def Let_def applyNamespaceEnv_signing verify_selfSigned
      createClientset_signing createCA_selfSigned_signing startServers_signing)

lemma generateConfig_reads:
  "keeps (filter readsSigningMaterial) tr (generateConfig w opts tr)"
  by (simp add: keeps_def fatalf_def generateConfig_def split: option.split)

lemma createClientset_reads:
  "keeps (filter readsSigningMaterial) tr (createClientset w opts tr)"
  unfolding createClientset_def
  by (intro keeps_andThen generateConfig_reads)
     (simp add: keeps_def fatalf_def split: option.split)

lemma createCA_selfSigned_reads:
  "selfSignedCA opts \<Longrightarrow> keeps (filter readsSigningMaterial) tr (createCA w opts cs tr)"
  by (simp add: createCA_def keeps_def fatalf_def Let_def split: option.split)

lemma startServers_reads:
  "keeps (filter readsSigningMaterial) tr (startServers w opts cs ca tr)"
  by (simp add: startServers_def Let_def keeps_def)

lemma runCA_selfSigned_reads:
  assumes ss: "selfSignedCA opts"
  shows "filter readsSigningMaterial (eventsOf (runCA w opts)) = []"
proof -
  define o1 where "o1 = applyNamespaceEnv w opts"
  have ss1: "selfSignedCA o1"
    using ss by (simp add: o1_def applyNamespaceEnv_signing)
  let ?g = "filter readsSigningMaterial"
  have body: "keeps ?g []
     (andThen (createClientset w o1 [])
        (\<lambda>cs tr. andThen (createCA w o1 cs tr) (\<lambda>ca tr. startServers w o1 cs ca tr)))"
    by (intro keeps_andThen createClientset_reads createCA_selfSigned_reads
        startServers_reads ss1)
  show ?thesis
  proof (cases "logConfigure w")
    case False
    then show ?thesis by (simp add: runCA_def fatalf_def)
  next
    case True
    with body ss1 show ?thesis
      by (simp add: runCA_def o1_def[symmetric] verify_selfSigned keeps_def eventsOf_case)
  qed
qed


lemma sint_Second: "sint Second = 1000000000"
  by (simp add: Second_def Millisecond_def Microsecond_def Nanosecond_def)


subsection \<open>Startup with rejected signing material\<close>

text \<open>
  C3. The claim: in non-self-signed mode, when \<open>NewIstioCA\<close> returns an error, startup
  aborts and no component goes on with an unconstructed CA. The run below has
  \<open>NewIstioCA\<close> return a nil CA and an error: \<open>createCA\<close> logs the error and returns, and
  \<open>runCA\<close> constructs and runs the secret controller with the nil CA, then waits for ever.
  (The self-signed branch of \<open>createCA\<close> calls \<open>fatalf\<close> at the same point.)
\<close>

theorem runCA_continues_after_NewIstioCA_error:
  "runCA rejectingWorld fileOptions =
     WaitForever
       [InClusterConfig, NewForConfig (RestConfig 0),
        ReadFile ''ca.crt'', ReadFile ''ca.key'', ReadFile ''root.crt'',
        NewIstioCA \<lparr> CertChainBytes = [], CertTTL = defaultWorkloadCertTTL,
                     MaxCertTTL = maxWorkloadCertTTL_const, SigningCertBytes = [],
                     SigningKeyBytes = [], RootCertBytes = [] \<rparr>,
        LogErrorf FailedCreateIstioCA,
        NewSecretController None defaultWorkloadCertTTL (Clientset 0) [],
        SecretControllerRun,
        LogInfo IstioCAHasStarted]"
  by (simp add: runCA_def applyNamespaceEnv_def verifyCommandLineOptions_def createClientset_def
      generateConfig_def createCA_def readFile_def startServers_def rejectingWorld_def
      fileOptions_def flagDefaults_def)

subsection \<open>Missing signing material\<close>

text \<open>
  C4. With self-signed mode disabled and the signing-cert, signing-key or root-cert option
  empty, every run ends in \<open>os.Exit(-1)\<close>, and all it has done by then is to log one error:
  no clientset, CA, controller or server has been created.
\<close>

theorem missing_signing_material_aborts:
  assumes "\<not> selfSignedCA opts"
    and "signingCertFile opts = [] \<or> signingKeyFile opts = [] \<or> rootCertFile opts = []"
  shows "\<exists>m \<in> {FailedConfigureLogging, NoSigningCert, NoSigningKey, NoRootCert}.
           runCA w opts = ProcessExit (- 1) [LogErrorf m]"
  using assms
  by (auto simp: runCA_def andThen_def fatalf_def verifyCommandLineOptions_def
      applyNamespaceEnv_def Let_def split: option.splits)

theorem missing_signing_material_aborts_witness:
  "\<not> selfSignedCA flagDefaults \<and> signingCertFile flagDefaults = []
   \<and> (\<exists>m \<in> {FailedConfigureLogging, NoSigningCert, NoSigningKey, NoRootCert}.
          runCA rejectingWorld flagDefaults = ProcessExit (- 1) [LogErrorf m])"
  using missing_signing_material_aborts [where opts = flagDefaults and w = rejectingWorld]
  by (simp add: flagDefaults_def)

subsection \<open>Defaults\<close>

text \<open>
  C5. \<open>NewConfig\<close> sets the retrial interval to 5 seconds, the number of retries to 5 and
  the grace period to 50 percent; the default workload certificate TTL is one hour, the
  default maximum workload certificate TTL seven days and the default CA certificate TTL
  365 days, and these are the defaults of the three TTL flags of the CA binary. Durations
  are read in nanoseconds.
\<close>

theorem documented_defaults:
  "sint (CSRInitialRetrialInterval NewConfig) = 5 * 1000000000
   \<and> CSRMaxRetries NewConfig = 5
   \<and> CSRGracePeriodPercentage NewConfig = 50
   \<and> sint defaultWorkloadCertTTL = 3600 * 1000000000
   \<and> sint maxWorkloadCertTTL_const = 7 * 24 * 3600 * 1000000000
   \<and> sint defaultCACertTTL = 365 * 24 * 3600 * 1000000000
   \<and> workloadCertTTL flagDefaults = defaultWorkloadCertTTL
   \<and> maxWorkloadCertTTL flagDefaults = maxWorkloadCertTTL_const
   \<and> caCertTTL flagDefaults = defaultCACertTTL"
  by (simp add: NewConfig_def defaultCSRInitialRetrialInterval_def defaultCSRMaxRetries_def
      defaultCSRGracePeriodPercentage_def defaultWorkloadCertTTL_def
      maxWorkloadCertTTL_const_def defaultCACertTTL_def flagDefaults_def
      Hour_def Minute_def Second_def Millisecond_def Microsecond_def Nanosecond_def)

subsection \<open>Self-signed mode\<close>

lemma createCA_selfSigned:
  assumes "selfSignedCA opts"
  shows "createCA w opts core tr =
     (case newSelfSignedIstioCA w (caCertTTL opts) (workloadCertTTL opts)
             (maxWorkloadCertTTL opts) (selfSignedCAOrg opts)
             (istioCaStorageNamespace opts) core of
        None \<Rightarrow>
          Exited (- 1)
            (tr @ [LogInfo UseSelfSignedCertificate,
                   NewSelfSignedIstioCA (caCertTTL opts) (workloadCertTTL opts)
                     (maxWorkloadCertTTL opts) (selfSignedCAOrg opts)
                     (istioCaStorageNamespace opts) core,
                   LogErrorf FailedCreateSelfSignedCA])
      | Some istioCA \<Rightarrow>
          Returned (Some istioCA)
            (tr @ [LogInfo UseSelfSignedCertificate,
                   NewSelfSignedIstioCA (caCertTTL opts) (workloadCertTTL opts)
                     (maxWorkloadCertTTL opts) (selfSignedCAOrg opts)
                     (istioCaStorageNamespace opts) core]))"
  using assms by (simp add: createCA_def fatalf_def Let_def split: option.split)

lemma runCA_selfSigned_started:
  assumes ss: "selfSignedCA opts" and run: "runCA w opts = WaitForever tr'"
  shows "\<exists>cs istioCA.
           newSelfSignedIstioCA w (caCertTTL opts) (workloadCertTTL opts)
             (maxWorkloadCertTTL opts) (selfSignedCAOrg opts)
             (istioCaStorageNamespace (applyNamespaceEnv w opts)) cs = Some istioCA
         \<and> NewSelfSignedIstioCA (caCertTTL opts) (workloadCertTTL opts)
             (maxWorkloadCertTTL opts) (selfSignedCAOrg opts)
             (istioCaStorageNamespace (applyNamespaceEnv w opts)) cs \<in> set tr'
         \<and> NewSecretController (Some istioCA) (workloadCertTTL opts) cs
             (namespace (applyNamespaceEnv w opts)) \<in> set tr'"
proof -
  define o1 where "o1 = applyNamespaceEnv w opts"
  have ss1: "selfSignedCA o1"
    using ss by (simp add: o1_def applyNamespaceEnv_signing)
  have same: "caCertTTL o1 = caCertTTL opts" "workloadCertTTL o1 = workloadCertTTL opts"
    "maxWorkloadCertTTL o1 = maxWorkloadCertTTL opts" "selfSignedCAOrg o1 = selfSignedCAOrg opts"
    by (simp_all add: o1_def applyNamespaceEnv_def split: option.split)
  have lc: "logConfigure w"
    using run by (cases "logConfigure w") (simp_all add: runCA_def fatalf_def)
  obtain cs t2 where cc: "createClientset w o1 [] = Returned cs t2"
    using run lc ss1
    by (cases "createClientset w o1 []")
       (simp_all add: runCA_def o1_def[symmetric] verify_selfSigned)
  obtain a t3 where ca: "createCA w o1 cs t2 = Returned a t3"
    using run lc ss1 cc
    by (cases "createCA w o1 cs t2")
       (simp_all add: runCA_def o1_def[symmetric] verify_selfSigned)
  from ca createCA_selfSigned [OF ss1, where w = w and core = cs and tr = t2]
  obtain istioCA where
    n: "newSelfSignedIstioCA w (caCertTTL o1) (workloadCertTTL o1) (maxWorkloadCertTTL o1)
          (selfSignedCAOrg o1) (istioCaStorageNamespace o1) cs = Some istioCA"
    and a: "a = Some istioCA"
    and t3: "t3 = t2 @ [LogInfo UseSelfSignedCertificate,
                        NewSelfSignedIstioCA (caCertTTL o1) (workloadCertTTL o1)
                          (maxWorkloadCertTTL o1) (selfSignedCAOrg o1)
                          (istioCaStorageNamespace o1) cs]"
    by (auto split: option.splits)
  from run lc ss1 cc ca
  have "startServers w o1 cs a t3 = Returned () tr'"
    by (cases "startServers w o1 cs a t3")
       (simp_all add: runCA_def o1_def[symmetric] verify_selfSigned)
  then have "NewSelfSignedIstioCA (caCertTTL o1) (workloadCertTTL o1)
               (maxWorkloadCertTTL o1) (selfSignedCAOrg o1) (istioCaStorageNamespace o1) cs
               \<in> set tr'"
    and "NewSecretController (Some istioCA) (workloadCertTTL o1) cs (namespace o1) \<in> set tr'"
    unfolding t3 a by (auto simp: startServers_def Let_def split: if_splits)
  with n have "newSelfSignedIstioCA w (caCertTTL opts) (workloadCertTTL opts)
                 (maxWorkloadCertTTL opts) (selfSignedCAOrg opts)
                 (istioCaStorageNamespace o1) cs = Some istioCA
             \<and> NewSelfSignedIstioCA (caCertTTL opts) (workloadCertTTL opts)
                 (maxWorkloadCertTTL opts) (selfSignedCAOrg opts)
                 (istioCaStorageNamespace o1) cs \<in> set tr'
             \<and> NewSecretController (Some istioCA) (workloadCertTTL opts) cs
                 (namespace o1) \<in> set tr'"
    by (simp add: same)
  then show ?thesis
    unfolding o1_def by blast
qed

text \<open>
  C9. With self-signed mode enabled, \<open>verifyCommandLineOptions\<close> returns without exiting
  and without logging, whatever the signing-cert, signing-key and root-cert options hold;
  the run does not depend on the values of these three options, reads no file and never
  calls \<open>NewIstioCA\<close>. \<open>createCA\<close> takes the self-signed path: it logs, calls
  \<open>NewSelfSignedIstioCA\<close> with the CA, workload and maximum workload TTLs, the organization,
  the storage namespace and the secrets client, exits when that fails and returns the CA
  it built otherwise, whatever the three options hold; and a run that starts its
  components has made that call and hands the CA so built to the secret controller.
\<close>

theorem selfSigned_ignores_signing_options:
  assumes "selfSignedCA opts"
  shows "verifyCommandLineOptions opts tr = Returned () tr
     \<and> runCA w (opts\<lparr>signingCertFile := a, signingKeyFile := b, rootCertFile := c\<rparr>)
           = runCA w opts
     \<and> filter readsSigningMaterial (eventsOf (runCA w opts)) = []
     \<and> createCA w opts core tr =
         (case newSelfSignedIstioCA w (caCertTTL opts) (workloadCertTTL opts)
                 (maxWorkloadCertTTL opts) (selfSignedCAOrg opts)
                 (istioCaStorageNamespace opts) core of
            None \<Rightarrow>
              Exited (- 1)
                (tr @ [LogInfo UseSelfSignedCertificate,
                       NewSelfSignedIstioCA (caCertTTL opts) (workloadCertTTL opts)
                         (maxWorkloadCertTTL opts) (selfSignedCAOrg opts)
                         (istioCaStorageNamespace opts) core,
                       LogErrorf FailedCreateSelfSignedCA])
          | Some istioCA \<Rightarrow>
              Returned (Some istioCA)
                (tr @ [LogInfo UseSelfSignedCertificate,
                       NewSelfSignedIstioCA (caCertTTL opts) (workloadCertTTL opts)
                         (maxWorkloadCertTTL opts) (selfSignedCAOrg opts)
                         (istioCaStorageNamespace opts) core]))
     \<and> createCA w (opts\<lparr>signingCertFile := a, signingKeyFile := b, rootCertFile := c\<rparr>)
           core tr
         = createCA w opts core tr
     \<and> (\<forall>tr'. runCA w opts = WaitForever tr' \<longrightarrow>
           (\<exists>cs istioCA.
              newSelfSignedIstioCA w (caCertTTL opts) (workloadCertTTL opts)
                (maxWorkloadCertTTL opts) (selfSignedCAOrg opts)
                (istioCaStorageNamespace (applyNamespaceEnv w opts)) cs = Some istioCA
            \<and> NewSelfSignedIstioCA (caCertTTL opts) (workloadCertTTL opts)
                (maxWorkloadCertTTL opts) (selfSignedCAOrg opts)
                (istioCaStorageNamespace (applyNamespaceEnv w opts)) cs \<in> set tr'
            \<and> NewSecretController (Some istioCA) (workloadCertTTL opts) cs
                (namespace (applyNamespaceEnv w opts)) \<in> set tr'))"
proof -
  have c1: "verifyCommandLineOptions opts tr = Returned () tr"
    using assms by (rule verify_selfSigned)
  have c2: "runCA w (opts\<lparr>signingCertFile := a, signingKeyFile := b, rootCertFile := c\<rparr>)
              = runCA w opts"
    using assms by (rule runCA_selfSigned_signing)
  have c3: "filter readsSigningMaterial (eventsOf (runCA w opts)) = []"
    using assms by (rule runCA_selfSigned_reads)
  note c4 = createCA_selfSigned [OF assms, where w = w and core = core and tr = tr]
  have c5: "createCA w (opts\<lparr>signingCertFile := a, signingKeyFile := b, rootCertFile := c\<rparr>)
              core tr = createCA w opts core tr"
    using assms by (rule createCA_selfSigned_signing)
  from c1 c2 c3 c4 c5 runCA_selfSigned_started [OF assms] show ?thesis
    by (intro conjI allI impI)
qed

theorem selfSigned_ignores_signing_options_witness:
  "selfSignedCA selfSignedOptions
   \<and> verifyCommandLineOptions selfSignedOptions [] = Returned () []
   \<and> runCA rejectingWorld
        (selfSignedOptions\<lparr>signingCertFile := ''ca.crt'', signingKeyFile := [],
                            rootCertFile := ''root.crt''\<rparr>)
       = runCA rejectingWorld selfSignedOptions
   \<and> filter readsSigningMaterial (eventsOf (runCA rejectingWorld selfSignedOptions)) = []
   \<and> createCA rejectingWorld selfSignedOptions (Clientset 0) [] =
       Returned (Some (IstioCA 0))
         [LogInfo UseSelfSignedCertificate,
          NewSelfSignedIstioCA defaultCACertTTL defaultWorkloadCertTTL maxWorkloadCertTTL_const
            ''k8s.cluster.local'' ''istio-system'' (Clientset 0)]"
  using selfSigned_ignores_signing_options
          [where opts = selfSignedOptions and tr = "[]" and w = rejectingWorld
             and a = "''ca.crt''" and b = "[]" and c = "''root.crt''"
             and core = "Clientset 0"]
  by (simp add: selfSignedOptions_def flagDefaults_def rejectingWorld_def)

subsection \<open>The TTL arguments of the two issuance paths\<close>



section \<open>Properties of the certificate authority\<close>

text \<open>
  C1, as stated, fails in two ways. A CA that caps by the signer's lifetime, with ten
  minutes left on its signing certificate, accepts a workload request of thirty minutes
  (within the ceiling of one hour) and issues ten minutes, not the requested thirty. And a
  request of two hours made with \<open>forCA\<close> is issued for two hours, although the maximum
  workload certificate TTL is one hour: its ceiling is the CA certificate policy.
\<close>

theorem Sign_validity_counterexample:
  "Sign cappingCA 0 sampleCSR 1800000000000 False = Inr cappedIssued
   \<and> min 1800000000000 (policyMaxWorkloadCertTTL cappingCA) = 1800000000000
   \<and> NotAfter (leaf cappedIssued) - NotBefore (leaf cappedIssued) = 600000000000
   \<and> Sign sampleCA 0 sampleCSR 7200000000000 True = Inr caIssued
   \<and> min 7200000000000 (policyMaxWorkloadCertTTL sampleCA) = 3600000000000
   \<and> NotAfter (leaf caIssued) - NotBefore (leaf caIssued) = 7200000000000"
  by (simp add: Sign_def cappingCA_def expiringCA_def expiringBundle_def sampleCA_def
      sampleCSR_def sampleBundle_def sampleRoot_def spiffeIdentity_def policyTTL_def
      cappedIssued_def caIssued_def)

text \<open>
  C1, amended. A certificate that \<open>Sign\<close> issues is valid from \<open>now\<close> for the smaller of the
  requested TTL and the policy ceiling, capped by the signer's remaining validity; the
  ceiling is the maximum workload certificate TTL for a workload request and the CA
  certificate policy for a \<open>forCA\<close> request. Where that TTL does not pass the signer's
  \<open>NotAfter\<close> (always so for a CA that refuses instead of capping) the validity is exactly
  the smaller of the requested TTL and the ceiling: for a workload request the requested
  TTL when that is within the maximum workload certificate TTL, and the maximum, not the
  requested value, when the request is above it.
\<close>

theorem Sign_validity_is_min_capped_by_signer:
  assumes "Sign ca now csr requestedTTL forCA = Inr cert"
  shows "\<exists>b. activeBundle ca = Some b
     \<and> NotBefore (leaf cert) = now
     \<and> NotAfter (leaf cert) - NotBefore (leaf cert)
         = min (min requestedTTL (policyTTL ca forCA)) (NotAfter (leafCert b) - now)
     \<and> (signerPolicy ca = RefuseOutliving \<longrightarrow>
          now + min requestedTTL (policyTTL ca forCA) \<le> NotAfter (leafCert b))
     \<and> (now + min requestedTTL (policyTTL ca forCA) \<le> NotAfter (leafCert b) \<longrightarrow>
          NotAfter (leaf cert) - NotBefore (leaf cert) = min requestedTTL (policyTTL ca forCA)
        \<and> (\<not> forCA \<longrightarrow>
             NotAfter (leaf cert) - NotBefore (leaf cert)
               = min requestedTTL (policyMaxWorkloadCertTTL ca)
           \<and> (requestedTTL \<le> policyMaxWorkloadCertTTL ca \<longrightarrow>
                 NotAfter (leaf cert) - NotBefore (leaf cert) = requestedTTL)
           \<and> (policyMaxWorkloadCertTTL ca < requestedTTL \<longrightarrow>
                 NotAfter (leaf cert) - NotBefore (leaf cert) = policyMaxWorkloadCertTTL ca
               \<and> NotAfter (leaf cert) - NotBefore (leaf cert) \<noteq> requestedTTL)))"
proof (cases "activeBundle ca")
  case None
  with assms show ?thesis by (simp add: Sign_def)
next
  case (Some b)
  with assms have cert: "cert =
      \<lparr> leaf = \<lparr> subject = identity csr, issuer = subject (leafCert b),
                  publicKey = csrPublicKey csr, NotBefore = now,
                  NotAfter = now + min (min requestedTTL (policyTTL ca forCA))
                                     (NotAfter (leafCert b) - now),
                  IsCA = forCA \<rparr>,
        chain = intermediates b, root = rootCert b \<rparr>"
    and refuse: "signerPolicy ca = RefuseOutliving \<longrightarrow>
                   now + min requestedTTL (policyTTL ca forCA) \<le> NotAfter (leafCert b)"
    by (auto simp: Sign_def split: if_splits)
  show ?thesis
  proof (intro exI[of _ b] conjI)
    show "activeBundle ca = Some b" by (rule Some)
    show "NotBefore (leaf cert) = now" by (simp add: cert)
    show "NotAfter (leaf cert) - NotBefore (leaf cert)
            = min (min requestedTTL (policyTTL ca forCA)) (NotAfter (leafCert b) - now)"
      by (simp add: cert)
    show "signerPolicy ca = RefuseOutliving \<longrightarrow>
            now + min requestedTTL (policyTTL ca forCA) \<le> NotAfter (leafCert b)"
      by (rule refuse)
    show "now + min requestedTTL (policyTTL ca forCA) \<le> NotAfter (leafCert b) \<longrightarrow>
          NotAfter (leaf cert) - NotBefore (leaf cert) = min requestedTTL (policyTTL ca forCA)
        \<and> (\<not> forCA \<longrightarrow>
             NotAfter (leaf cert) - NotBefore (leaf cert)
               = min requestedTTL (policyMaxWorkloadCertTTL ca)
           \<and> (requestedTTL \<le> policyMaxWorkloadCertTTL ca \<longrightarrow>
                 NotAfter (leaf cert) - NotBefore (leaf cert) = requestedTTL)
           \<and> (policyMaxWorkloadCertTTL ca < requestedTTL \<longrightarrow>
                 NotAfter (leaf cert) - NotBefore (leaf cert) = policyMaxWorkloadCertTTL ca
               \<and> NotAfter (leaf cert) - NotBefore (leaf cert) \<noteq> requestedTTL))"
      by (auto simp: cert policyTTL_def)
  qed
qed

theorem Sign_validity_is_min_capped_by_signer_witness:
  "Sign sampleCA 0 sampleCSR 7200000000000 False = Inr sampleIssued
   \<and> activeBundle sampleCA = Some sampleBundle
   \<and> 0 + min 7200000000000 (policyTTL sampleCA False) \<le> NotAfter (leafCert sampleBundle)
   \<and> policyMaxWorkloadCertTTL sampleCA < 7200000000000
   \<and> NotAfter (leaf sampleIssued) - NotBefore (leaf sampleIssued) = 3600000000000
   \<and> Sign cappingCA 0 sampleCSR 1800000000000 False = Inr cappedIssued
   \<and> NotAfter (leaf cappedIssued) - NotBefore (leaf cappedIssued)
       = min (min 1800000000000 (policyTTL cappingCA False))
             (NotAfter (leafCert expiringBundle) - 0)"
proof -
  have s: "Sign sampleCA 0 sampleCSR 7200000000000 False = Inr sampleIssued"
    by (simp add: Sign_def sampleCA_def sampleCSR_def sampleIssued_def sampleBundle_def
        sampleRoot_def spiffeIdentity_def policyTTL_def)
  have c: "Sign cappingCA 0 sampleCSR 1800000000000 False = Inr cappedIssued"
    by (simp add: Sign_def cappingCA_def expiringCA_def expiringBundle_def sampleCA_def
        sampleCSR_def sampleRoot_def spiffeIdentity_def policyTTL_def cappedIssued_def)
  have b: "activeBundle sampleCA = Some sampleBundle"
    by (simp add: sampleCA_def)
  have e: "activeBundle cappingCA = Some expiringBundle"
    by (simp add: cappingCA_def expiringCA_def)
  have p: "policyTTL sampleCA False = 3600000000000"
       "NotAfter (leafCert sampleBundle) = 31536000000000000"
       "policyMaxWorkloadCertTTL sampleCA = 3600000000000"
    by (simp_all add: policyTTL_def sampleCA_def sampleBundle_def sampleRoot_def)
  from Sign_validity_is_min_capped_by_signer [OF s] b p
  have "NotAfter (leaf sampleIssued) - NotBefore (leaf sampleIssued) = 3600000000000"
    by auto
  moreover from Sign_validity_is_min_capped_by_signer [OF c] e
  have "NotAfter (leaf cappedIssued) - NotBefore (leaf cappedIssued)
          = min (min 1800000000000 (policyTTL cappingCA False))
                (NotAfter (leafCert expiringBundle) - 0)"
    by auto
  ultimately show ?thesis
    using s c b p by simp
qed

text \<open>
  C2. With a bundle active, no certificate that \<open>Sign\<close> issues has a \<open>NotAfter\<close> later than
  that of the bundle's signing certificate: its validity is within the signer's remaining
  validity. A request that is acceptable apart from the signer's lifetime (well-formed
  identity, permitted key usage, TTL within the ceiling where the CA rejects above it) is
  either issued or refused with \<open>ErrSignerExpired\<close>. A CA that refuses does so exactly when
  the signing certificate has expired or the TTL to be issued would pass its \<open>NotAfter\<close>; a
  CA that caps refuses exactly when the signing certificate has expired, and otherwise
  issues a TTL that would pass the signer's \<open>NotAfter\<close> with that \<open>NotAfter\<close>.
\<close>

theorem Sign_never_outlives_signer:
  assumes "activeBundle ca = Some b"
  shows "(\<forall>cert. Sign ca now csr requestedTTL forCA = Inr cert \<longrightarrow>
            NotAfter (leaf cert) \<le> NotAfter (leafCert b)
          \<and> NotAfter (leaf cert) - NotBefore (leaf cert) \<le> NotAfter (leafCert b) - now)
     \<and> (wellFormedIdentity ca (identity csr) \<and> (caKeyUsage csr \<longrightarrow> forCA)
          \<and> (overCeiling ca = ClampToCeiling \<or> requestedTTL \<le> policyTTL ca forCA) \<longrightarrow>
          ((\<exists>cert. Sign ca now csr requestedTTL forCA = Inr cert)
             \<or> Sign ca now csr requestedTTL forCA = Inl ErrSignerExpired)
        \<and> (signerPolicy ca = RefuseOutliving \<longrightarrow>
             (Sign ca now csr requestedTTL forCA = Inl ErrSignerExpired
              \<longleftrightarrow> NotAfter (leafCert b) \<le> now
                  \<or> NotAfter (leafCert b) < now + min requestedTTL (policyTTL ca forCA)))
        \<and> (signerPolicy ca = CapToSigner \<longrightarrow>
             (Sign ca now csr requestedTTL forCA = Inl ErrSignerExpired
              \<longleftrightarrow> NotAfter (leafCert b) \<le> now)
           \<and> (now < NotAfter (leafCert b)
                \<and> NotAfter (leafCert b) < now + min requestedTTL (policyTTL ca forCA) \<longrightarrow>
                (\<exists>cert. Sign ca now csr requestedTTL forCA = Inr cert
                       \<and> NotAfter (leaf cert) = NotAfter (leafCert b)))))"
proof (intro conjI allI impI)
  fix cert
  assume s: "Sign ca now csr requestedTTL forCA = Inr cert"
  with assms show "NotAfter (leaf cert) \<le> NotAfter (leafCert b)"
    by (auto simp: Sign_def split: if_splits)
  from s assms
  show "NotAfter (leaf cert) - NotBefore (leaf cert) \<le> NotAfter (leafCert b) - now"
    by (auto simp: Sign_def split: if_splits)
next
  assume "wellFormedIdentity ca (identity csr) \<and> (caKeyUsage csr \<longrightarrow> forCA)
           \<and> (overCeiling ca = ClampToCeiling \<or> requestedTTL \<le> policyTTL ca forCA)"
  with assms
  show "(\<exists>cert. Sign ca now csr requestedTTL forCA = Inr cert)
          \<or> Sign ca now csr requestedTTL forCA = Inl ErrSignerExpired"
    by (cases "overCeiling ca") (auto simp: Sign_def)
next
  assume "wellFormedIdentity ca (identity csr) \<and> (caKeyUsage csr \<longrightarrow> forCA)
           \<and> (overCeiling ca = ClampToCeiling \<or> requestedTTL \<le> policyTTL ca forCA)"
    and "signerPolicy ca = RefuseOutliving"
  with assms
  show "Sign ca now csr requestedTTL forCA = Inl ErrSignerExpired
          \<longleftrightarrow> NotAfter (leafCert b) \<le> now
              \<or> NotAfter (leafCert b) < now + min requestedTTL (policyTTL ca forCA)"
    by (cases "overCeiling ca") (auto simp: Sign_def)
next
  assume "wellFormedIdentity ca (identity csr) \<and> (caKeyUsage csr \<longrightarrow> forCA)
           \<and> (overCeiling ca = ClampToCeiling \<or> requestedTTL \<le> policyTTL ca forCA)"
    and "signerPolicy ca = CapToSigner"
  with assms
  show "Sign ca now csr requestedTTL forCA = Inl ErrSignerExpired
          \<longleftrightarrow> NotAfter (leafCert b) \<le> now"
    by (cases "overCeiling ca") (auto simp: Sign_def)
next
  assume "wellFormedIdentity ca (identity csr) \<and> (caKeyUsage csr \<longrightarrow> forCA)
           \<and> (overCeiling ca = ClampToCeiling \<or> requestedTTL \<le> policyTTL ca forCA)"
    and "signerPolicy ca = CapToSigner"
    and "now < NotAfter (leafCert b)
           \<and> NotAfter (leafCert b) < now + min requestedTTL (policyTTL ca forCA)"
  with assms
  show "\<exists>cert. Sign ca now csr requestedTTL forCA = Inr cert
              \<and> NotAfter (leaf cert) = NotAfter (leafCert b)"
    by (cases "overCeiling ca") (auto simp: Sign_def)
qed

theorem Sign_never_outlives_signer_witness:
  "activeBundle expiringCA = Some expiringBundle
   \<and> wellFormedIdentity expiringCA (identity sampleCSR)
   \<and> \<not> caKeyUsage sampleCSR
   \<and> overCeiling expiringCA = ClampToCeiling
   \<and> signerPolicy expiringCA = RefuseOutliving
   \<and> NotAfter (leafCert expiringBundle) - 0 < 3600000000000
   \<and> Sign expiringCA 0 sampleCSR 3600000000000 False = Inl ErrSignerExpired"
  using Sign_never_outlives_signer
          [where ca = expiringCA and b = expiringBundle and now = 0 and csr = sampleCSR
             and requestedTTL = 3600000000000 and forCA = False]
  by (simp add: expiringCA_def expiringBundle_def sampleCA_def sampleCSR_def sampleRoot_def
      spiffeIdentity_def policyTTL_def)

section \<open>Properties of the self-signed bootstrap\<close>

text \<open>
  C8. When the store already holds a root that is valid and not near expiry, \<open>Bootstrap\<close>
  returns that root and leaves the store as it is; a second call, made while the root is
  still valid and not near expiry, returns the same root again, even though it would
  generate another key.
\<close>

theorem Bootstrap_idempotent:
  assumes "store (storageKey ea) = Some b"
    and "storageKey eb = storageKey ea"
    and "rootReusable ea b"
    and "rootReusable eb b"
  shows "Bootstrap ea store caTTL workloadTTL maxWorkloadTTL organization = (Inr b, store)
     \<and> Bootstrap eb (snd (Bootstrap ea store caTTL workloadTTL maxWorkloadTTL organization))
          caTTL workloadTTL maxWorkloadTTL organization
         = (Inr b, store)"
  using assms by (simp add: Bootstrap_def Let_def)

theorem Bootstrap_idempotent_witness:
  "sampleStore (storageKey firstCall) = Some sampleBundle
   \<and> storageKey secondCall = storageKey firstCall
   \<and> rootReusable firstCall sampleBundle
   \<and> rootReusable secondCall sampleBundle
   \<and> generatedKey firstCall \<noteq> generatedKey secondCall
   \<and> Bootstrap firstCall sampleStore 31536000000000000 3600000000000 604800000000000
        ''k8s.cluster.local'' = (Inr sampleBundle, sampleStore)
   \<and> Bootstrap secondCall
        (snd (Bootstrap firstCall sampleStore 31536000000000000 3600000000000
                604800000000000 ''k8s.cluster.local''))
        31536000000000000 3600000000000 604800000000000 ''k8s.cluster.local''
       = (Inr sampleBundle, sampleStore)"
proof -
  have h1: "sampleStore (storageKey firstCall) = Some sampleBundle"
    by (simp add: sampleStore_def firstCall_def)
  have h2: "storageKey secondCall = storageKey firstCall"
    by (simp add: secondCall_def)
  have h3: "rootReusable firstCall sampleBundle"
    by (simp add: rootReusable_def firstCall_def sampleBundle_def sampleRoot_def)
  have h4: "rootReusable secondCall sampleBundle"
    by (simp add: rootReusable_def secondCall_def firstCall_def sampleBundle_def
        sampleRoot_def)
  have h5: "generatedKey firstCall \<noteq> generatedKey secondCall"
    by (simp add: secondCall_def firstCall_def)
  from Bootstrap_idempotent
         [where store = sampleStore and ea = firstCall and eb = secondCall
            and b = sampleBundle and caTTL = 31536000000000000
            and workloadTTL = 3600000000000 and maxWorkloadTTL = 604800000000000
            and organization = "''k8s.cluster.local''", OF h1 h2 h3 h4]
       h1 h2 h3 h4 h5
  show ?thesis by blast
qed

section \<open>Properties of the node agent\<close>

subsection \<open>Auxiliary facts\<close>


















subsection \<open>The retry ceiling\<close>




subsection \<open>The renewal deadline\<close>




end
